theory Spec2Isabelle
  imports Main "HOL-Library.AList"
begin

section \<open>Python text primitives used by \<^verbatim>\<open>patchwork/api/patch.py\<close>\<close>

text \<open>
  Text is a list of characters; a character stands for a code point below 256, so
  \<open>lower_char\<close> and \<open>is_space\<close> follow Python's \<^verbatim>\<open>str.lower\<close> and
  \<^verbatim>\<open>str.isspace\<close> on that range (ASCII and Latin-1).
\<close>

definition is_space :: "char \<Rightarrow> bool" where
  "is_space c =
     (let n = (of_char c :: nat)
      in (9 \<le> n \<and> n \<le> 13) \<or> (28 \<le> n \<and> n \<le> 32) \<or> n = 133 \<or> n = 160)"

definition lower_char :: "char \<Rightarrow> char" where
  "lower_char c =
     (let n = (of_char c :: nat)
      in if (65 \<le> n \<and> n \<le> 90) \<or> (192 \<le> n \<and> n \<le> 214) \<or> (216 \<le> n \<and> n \<le> 222)
         then char_of (n + 32) else c)"

text \<open>\<^verbatim>\<open>s.lower()\<close>\<close>

definition py_lower :: "string \<Rightarrow> string" where
  "py_lower s = map lower_char s"

text \<open>\<^verbatim>\<open>sep.join(parts)\<close>\<close>

fun py_join :: "string \<Rightarrow> string list \<Rightarrow> string" where
  "py_join sep [] = []"
| "py_join sep [x] = x"
| "py_join sep (x # y # ys) = x @ sep @ py_join sep (y # ys)"

text \<open>
  \<^verbatim>\<open>s.split()\<close> with no separator: skip white space, take the longest run of other
  characters as a piece, and go on after it; no piece is empty.
\<close>

function py_split :: "string \<Rightarrow> string list" where
  "py_split s =
     (let s' = dropWhile is_space s
      in if s' = [] then []
         else takeWhile (\<lambda>c. \<not> is_space c) s' # py_split (dropWhile (\<lambda>c. \<not> is_space c) s'))"
  by pat_completeness auto
termination
proof (relation "measure length")
  show "wf (measure length)" by simp
next
  fix s s' :: string
  assume s': "s' = dropWhile is_space s" and ne: "s' \<noteq> []"
  from ne obtain c cs where c: "s' = c # cs" by (cases s') auto
  with s' have "\<not> is_space c" by (metis hd_dropWhile list.sel(1) ne)
  with c have "length (dropWhile (\<lambda>c. \<not> is_space c) s') \<le> length cs"
    by (simp add: length_dropWhile_le)
  also have "length cs < length s'" using c by simp
  also have "length s' \<le> length s" using s' by (simp add: length_dropWhile_le)
  finally show "(dropWhile (\<lambda>c. \<not> is_space c) s', s) \<in> measure length" by simp
qed

declare py_split.simps [simp del]

text \<open>
  \<^verbatim>\<open>s.split(sep)\<close> for a separator of one character: cut at every occurrence, empty
  pieces kept, so the result is never empty.
\<close>

function split_on :: "char \<Rightarrow> string \<Rightarrow> string list" where
  "split_on sep s =
     (let r = dropWhile (\<lambda>c. c \<noteq> sep) s
      in if r = [] then [takeWhile (\<lambda>c. c \<noteq> sep) s]
         else takeWhile (\<lambda>c. c \<noteq> sep) s # split_on sep (tl r))"
  by pat_completeness auto
termination
proof (relation "measure (\<lambda>(sep, s). length s)")
  show "wf (measure (\<lambda>(sep, s). length s))" by simp
next
  fix sep :: char and s r :: string
  assume r: "r = dropWhile (\<lambda>c. c \<noteq> sep) s" and ne: "r \<noteq> []"
  from ne have "length (tl r) < length r" by (cases r) auto
  also have "length r \<le> length s" using r by (simp add: length_dropWhile_le)
  finally show "((sep, tl r), (sep, s)) \<in> measure (\<lambda>(sep, s). length s)" by simp
qed

declare split_on.simps [simp del]

section \<open>State records and the State table\<close>

text \<open>
  A \<^verbatim>\<open>State\<close> row, as far as this module reads it: its primary key and its name.
  \<^verbatim>\<open>State.objects.all()\<close> is the list of rows of the table.
\<close>

record state =
  pk :: nat
  name :: string

text \<open>Python values that can reach a field as input data.\<close>

datatype pyval =
    PyNone
  | PyBool bool
  | PyInt int
  | PyFloat
  | PyStr string
  | PyBytes string
  | PyList "pyval list"
  | PyDict "(string \<times> pyval) list"

text \<open>\<^verbatim>\<open>type(data).__name__\<close>\<close>

fun type_name :: "pyval \<Rightarrow> string" where
  "type_name PyNone = ''NoneType''"
| "type_name (PyBool _) = ''bool''"
| "type_name (PyInt _) = ''int''"
| "type_name PyFloat = ''float''"
| "type_name (PyStr _) = ''str''"
| "type_name (PyBytes _) = ''bytes''"
| "type_name (PyList _) = ''list''"
| "type_name (PyDict _) = ''dict''"

text \<open>
  The exceptions that can leave \<^verbatim>\<open>to_internal_value\<close>. \<open>ValidationError key kwargs\<close>
  is what \<^verbatim>\<open>self.fail(key, **kwargs)\<close> raises.
\<close>

datatype exn =
    DoesNotExist
  | MultipleObjectsReturned
  | AttributeError
  | TypeError
  | ValueError
  | ValidationError string "(string \<times> pyval) list"

definition fail :: "string \<Rightarrow> (string \<times> pyval) list \<Rightarrow> exn" where
  "fail key kwargs = ValidationError key kwargs"

section \<open>StateField\<close>

text \<open>\<^verbatim>\<open>def format_state_name(state): return ' '.join(state.split('-'))\<close>\<close>

definition format_state_name :: "string \<Rightarrow> string" where
  "format_state_name st = py_join '' '' (split_on CHR ''-'' st)"

text \<open>
  The same call on any value: only text has a \<^verbatim>\<open>split\<close> that takes \<^verbatim>\<open>'-'\<close>; a
  bytes object refuses a text separator with \<^verbatim>\<open>TypeError\<close>, and every other value
  has no attribute \<^verbatim>\<open>split\<close>.
\<close>

fun format_state_name_of :: "pyval \<Rightarrow> exn + string" where
  "format_state_name_of (PyStr s) = Inr (format_state_name s)"
| "format_state_name_of (PyBytes _) = Inl TypeError"
| "format_state_name_of _ = Inl AttributeError"

text \<open>\<^verbatim>\<open>name__iexact\<close>: equality up to case.\<close>

definition iexact :: "string \<Rightarrow> string \<Rightarrow> bool" where
  "iexact a b = (py_lower a = py_lower b)"

text \<open>
  \<^verbatim>\<open>queryset.get(name__iexact=data)\<close>: the one matching row;
  \<^verbatim>\<open>DoesNotExist\<close> when there is none, \<^verbatim>\<open>MultipleObjectsReturned\<close> when there
  are several.
\<close>

definition get_name_iexact :: "state list \<Rightarrow> string \<Rightarrow> exn + state" where
  "get_name_iexact queryset data =
     (case filter (\<lambda>x. iexact (name x) data) queryset of
        [] \<Rightarrow> Inl DoesNotExist
      | [x] \<Rightarrow> Inr x
      | _ \<Rightarrow> Inl MultipleObjectsReturned)"

text \<open>The entries of the \<^verbatim>\<open>choices\<close> string of the \<^verbatim>\<open>invalid_choice\<close> error.\<close>

definition choice_entries :: "state list \<Rightarrow> string list" where
  "choice_entries queryset = map (\<lambda>x. format_state_name (name x)) queryset"

text \<open>
  The two \<^verbatim>\<open>except\<close> clauses of \<^verbatim>\<open>to_internal_value\<close>; \<open>data\<close> is the value the
  variable \<^verbatim>\<open>data\<close> holds when the exception arrives. Any other exception passes.
\<close>

fun handle :: "state list \<Rightarrow> pyval \<Rightarrow> exn \<Rightarrow> exn" where
  "handle queryset data DoesNotExist =
     fail ''invalid_choice''
       [(''name'', data), (''choices'', PyStr (py_join '', '' (choice_entries queryset)))]"
| "handle queryset data TypeError = fail ''incorrect_type'' [(''data_type'', PyStr (type_name data))]"
| "handle queryset data ValueError = fail ''incorrect_type'' [(''data_type'', PyStr (type_name data))]"
| "handle queryset data e = e"

text \<open>
  \<^verbatim>\<open>StateField.to_internal_value\<close>. The first statement of the \<^verbatim>\<open>try\<close> block rebinds
  \<^verbatim>\<open>data\<close>, so a failure of the lookup is handled with the reformatted text.
\<close>

definition to_internal_value :: "state list \<Rightarrow> pyval \<Rightarrow> exn + state" where
  "to_internal_value queryset data =
     (case format_state_name_of data of
        Inl e \<Rightarrow> Inl (handle queryset data e)
      | Inr data' \<Rightarrow>
          (case get_name_iexact queryset data' of
             Inl e \<Rightarrow> Inl (handle queryset (PyStr data') e)
           | Inr obj \<Rightarrow> Inr obj))"

text \<open>\<^verbatim>\<open>StateField.to_representation\<close>: \<^verbatim>\<open>'-'.join(obj.name.lower().split())\<close>\<close>

definition to_representation :: "state \<Rightarrow> string" where
  "to_representation obj = py_join ''-'' (py_split (py_lower (name obj)))"

section \<open>Patch serializers\<close>

text \<open>
  What the serializer methods read of a \<^verbatim>\<open>Patch\<close>: the tags of its project (a
  \<^verbatim>\<open>Tag\<close> has a \<^verbatim>\<open>name\<close>, here \<open>tag_name\<close>, and an \<^verbatim>\<open>attr_name\<close>), the
  attributes that \<^verbatim>\<open>getattr\<close> finds on the instance, and the stored header text.
\<close>

record tag =
  tag_name :: string
  attr_name :: string

record project =
  tags :: "tag list"

record patch =
  project :: project
  attrs :: "string \<rightharpoonup> int"
  headers :: "string option"

text \<open>\<^verbatim>\<open>getattr(instance, attr)\<close>\<close>

definition getattr :: "patch \<Rightarrow> string \<Rightarrow> exn + int" where
  "getattr instance attr =
     (case attrs instance attr of None \<Rightarrow> Inl AttributeError | Some v \<Rightarrow> Inr v)"

text \<open>
  The dict comprehension \<^verbatim>\<open>{x.name: getattr(instance, x.attr_name) for x in tags}\<close>:
  entries are stored from left to right into a dict that keeps insertion order, a
  later entry replacing the value of an equal key; the first failing
  \<^verbatim>\<open>getattr\<close> ends it.
\<close>

fun tags_dict :: "patch \<Rightarrow> tag list \<Rightarrow> (string \<times> int) list \<Rightarrow> exn + (string \<times> int) list" where
  "tags_dict instance [] acc = Inr acc"
| "tags_dict instance (x # xs) acc =
     (case getattr instance (attr_name x) of
        Inl e \<Rightarrow> Inl e
      | Inr v \<Rightarrow> tags_dict instance xs (AList.update (tag_name x) v acc))"

text \<open>\<^verbatim>\<open>PatchListSerializer.get_tags\<close>\<close>

definition get_tags :: "patch \<Rightarrow> exn + (string \<times> int) list option" where
  "get_tags instance =
     (if tags (project instance) \<noteq> []
      then (case tags_dict instance (tags (project instance)) [] of
              Inl e \<Rightarrow> Inl e
            | Inr d \<Rightarrow> Inr (Some d))
      else Inr None)"

text \<open>
  \<^verbatim>\<open>PatchDetailSerializer.get_headers\<close>; \<open>parsestr\<close> stands for
  \<^verbatim>\<open>email.parser.Parser().parsestr(_, True)\<close>. Without a truthy header text the
  method falls off its end and returns \<^verbatim>\<open>None\<close>.
\<close>

definition get_headers :: "(string \<Rightarrow> 'm) \<Rightarrow> patch \<Rightarrow> 'm option" where
  "get_headers parsestr p =
     (case headers p of
        None \<Rightarrow> None
      | Some h \<Rightarrow> if h \<noteq> [] then Some (parsestr h) else None)"

subsection \<open>The \<^verbatim>\<open>Meta\<close> declarations\<close>

definition PatchListSerializer_fields :: "string list" where
  "PatchListSerializer_fields =
     [''id'', ''url'', ''project'', ''msgid'', ''date'', ''name'',
      ''commit_ref'', ''pull_url'', ''state'', ''archived'', ''hash'',
      ''submitter'', ''delegate'', ''mbox'', ''series'', ''check'', ''checks'',
      ''tags'']"

definition PatchListSerializer_read_only_fields :: "string list" where
  "PatchListSerializer_read_only_fields =
     [''project'', ''msgid'', ''date'', ''name'', ''hash'',
      ''submitter'', ''mbox'', ''mbox'', ''series'', ''check'',
      ''checks'', ''tags'']"

definition PatchDetailSerializer_fields :: "string list" where
  "PatchDetailSerializer_fields =
     PatchListSerializer_fields @ [''headers'', ''content'', ''diff'']"

definition PatchDetailSerializer_read_only_fields :: "string list" where
  "PatchDetailSerializer_read_only_fields =
     PatchListSerializer_read_only_fields @ [''headers'', ''content'', ''diff'']"

text \<open>The fields declared in the class body of \<^verbatim>\<open>PatchListSerializer\<close>.\<close>

datatype declared_field = SerializerMethodField | StateField

definition PatchListSerializer_declared :: "(string \<times> declared_field) list" where
  "PatchListSerializer_declared =
     [(''mbox'', SerializerMethodField), (''state'', StateField),
      (''tags'', SerializerMethodField), (''check'', SerializerMethodField),
      (''checks'', SerializerMethodField)]"

subsection \<open>What the serializer base class does with them\<close>

text \<open>
  The rules below are those of the framework's model serializer, which this module
  only configures. A declared method field is read-only and a declared
  \<open>StateField\<close> is not; a generated field is read-only when \<^verbatim>\<open>Meta.read_only_fields\<close>
  lists it, and so are the automatic primary key \<^verbatim>\<open>id\<close> and the identity link
  \<^verbatim>\<open>url\<close>.
\<close>

definition is_read_only :: "(string \<times> declared_field) list \<Rightarrow> string list \<Rightarrow> string \<Rightarrow> bool" where
  "is_read_only declared read_only_fields f =
     (case map_of declared f of
        Some SerializerMethodField \<Rightarrow> True
      | Some StateField \<Rightarrow> False
      | None \<Rightarrow> f \<in> set read_only_fields \<or> f = ''id'' \<or> f = ''url'')"

definition writable_fields ::
  "(string \<times> declared_field) list \<Rightarrow> string list \<Rightarrow> string list \<Rightarrow> string list" where
  "writable_fields declared field_names read_only_fields =
     filter (\<lambda>f. \<not> is_read_only declared read_only_fields f) field_names"

text \<open>
  An update keeps the entries of the request data that belong to writable fields and
  sets each of them on the instance, here a map from field name to stored value.
\<close>

definition validated_data ::
  "(string \<times> declared_field) list \<Rightarrow> string list \<Rightarrow> string list \<Rightarrow> (string \<times> 'v) list \<Rightarrow> (string \<times> 'v) list" where
  "validated_data declared field_names read_only_fields data =
     filter (\<lambda>(k, v). k \<in> set (writable_fields declared field_names read_only_fields)) data"

definition update ::
  "(string \<times> declared_field) list \<Rightarrow> string list \<Rightarrow> string list \<Rightarrow>
   (string \<rightharpoonup> 'v) \<Rightarrow> (string \<times> 'v) list \<Rightarrow> (string \<rightharpoonup> 'v)" where
  "update declared field_names read_only_fields instance data =
     fold (\<lambda>(k, v) m. m(k \<mapsto> v)) (validated_data declared field_names read_only_fields data) instance"

text \<open>
  The representation of an instance has one entry for each name in \<^verbatim>\<open>Meta.fields\<close>,
  in that order; \<open>field_value\<close> computes the value of a field.
\<close>

definition serialize :: "string list \<Rightarrow> (string \<Rightarrow> 'i \<Rightarrow> 'j) \<Rightarrow> 'i \<Rightarrow> (string \<times> 'j) list" where
  "serialize field_names field_value instance = map (\<lambda>f. (f, field_value f instance)) field_names"

definition keys :: "('k \<times> 'v) list \<Rightarrow> 'k list" where
  "keys d = map fst d"

section \<open>The specification's vocabulary\<close>

text \<open>Replacing hyphens with spaces, and spaces with hyphens.\<close>

definition hyphens_to_spaces :: "string \<Rightarrow> string" where
  "hyphens_to_spaces s = map (\<lambda>c. if c = CHR ''-'' then CHR '' '' else c) s"

definition spaces_to_hyphens :: "string \<Rightarrow> string" where
  "spaces_to_hyphens s = map (\<lambda>c. if c = CHR '' '' then CHR ''-'' else c) s"

text \<open>Dropping leading and trailing white space.\<close>

definition strip_ws :: "string \<Rightarrow> string" where
  "strip_ws s = rev (dropWhile is_space (rev (dropWhile is_space s)))"

text \<open>Replacing every run of white space by one hyphen.\<close>

function collapse_runs :: "string \<Rightarrow> string" where
  "collapse_runs [] = []"
| "collapse_runs (c # cs) =
     (if is_space c then CHR ''-'' # collapse_runs (dropWhile is_space cs)
      else c # collapse_runs cs)"
  by pat_completeness auto
termination
  by (relation "measure length") (auto simp: less_Suc_eq_le length_dropWhile_le)

text \<open>
  A name whose only white space is single blanks, each between two other characters:
  no blank at either end, no two blanks in a row, no tab or line break.
\<close>

fun single_spaced :: "string \<Rightarrow> bool" where
  "single_spaced [] = True"
| "single_spaced [c] = (\<not> is_space c)"
| "single_spaced (c # d # cs) =
     (\<not> is_space c \<and>
      (if d = CHR '' '' then cs \<noteq> [] \<and> single_spaced cs else single_spaced (d # cs)))"

text \<open>ASCII letters, digits and the underscore.\<close>

definition name_char :: "char \<Rightarrow> bool" where
  "name_char c =
     (let n = (of_char c :: nat)
      in (48 \<le> n \<and> n \<le> 57) \<or> (65 \<le> n \<and> n \<le> 90) \<or> (97 \<le> n \<and> n \<le> 122) \<or> n = 95)"

text \<open>
  The names the field is documented to work for: letters, digits, underscores and
  single spaces.
\<close>

definition valid_state_name :: "string \<Rightarrow> bool" where
  "valid_state_name s = (single_spaced s \<and> list_all (\<lambda>c. name_char c \<or> c = CHR '' '') s)"

section \<open>Sample data\<close>

text \<open>A patch of a project with the one tag \<^verbatim>\<open>reviewed\<close>, counted three times.\<close>

definition reviewed_patch :: patch where
  "reviewed_patch =
     \<lparr>project = \<lparr>tags = [\<lparr>tag_name = ''reviewed'', attr_name = ''tag_1_count''\<rparr>]\<rparr>,
      attrs = [''tag_1_count'' \<mapsto> 3], headers = None\<rparr>"

section \<open>Facts about the text primitives\<close>

lemma split_on_not_Nil: "split_on sep s \<noteq> []"
  by (subst split_on.simps) (simp add: Let_def)

lemma py_join_Cons: "ws \<noteq> [] \<Longrightarrow> py_join sep (w # ws) = w @ sep @ py_join sep ws"
  by (cases ws) simp_all

lemma join_split_on: "py_join [t] (split_on sep s) = map (\<lambda>c. if c = sep then t else c) s"
proof (induction sep s rule: split_on.induct)
  case (1 sep s)
  let ?f = "\<lambda>c. if c = sep then t else c"
  let ?w = "takeWhile (\<lambda>c. c \<noteq> sep) s"
  let ?r = "dropWhile (\<lambda>c. c \<noteq> sep) s"
  have w: "map ?f ?w = ?w"
    by (rule map_idI) (auto dest: set_takeWhileD)
  show ?case
  proof (cases "?r = []")
    case True
    then have "?w = s" by simp
    with True w show ?thesis by (subst split_on.simps) (simp add: Let_def)
  next
    case False
    then obtain r' where r: "?r = sep # r'"
      by (cases ?r) (auto simp: dropWhile_eq_Cons_conv)
    have ih: "py_join [t] (split_on sep r') = map ?f r'"
      using "1.IH"[OF refl False] r by simp
    have "s = ?w @ sep # r'"
      using r takeWhile_dropWhile_id[of "\<lambda>c. c \<noteq> sep" s] by simp
    then have "map ?f s = map ?f (?w @ sep # r')" by simp
    then have "map ?f s = ?w @ t # map ?f r'" using w by simp
    moreover have "py_join [t] (split_on sep s) = ?w @ [t] @ py_join [t] (split_on sep r')"
      using False r by (subst split_on.simps) (simp add: Let_def py_join_Cons split_on_not_Nil)
    ultimately show ?thesis using ih by simp
  qed
qed

lemma format_state_name_map: "format_state_name s = hyphens_to_spaces s"
  by (simp add: format_state_name_def hyphens_to_spaces_def join_split_on)


lemma py_split_Nil: "py_split [] = []"
  by (subst py_split.simps) simp

lemma py_split_unfold:
  "dropWhile is_space s \<noteq> [] \<Longrightarrow>
   py_split s = takeWhile (\<lambda>c. \<not> is_space c) (dropWhile is_space s)
                # py_split (dropWhile (\<lambda>c. \<not> is_space c) (dropWhile is_space s))"
  by (subst py_split.simps) (simp add: Let_def)

lemma py_split_all_space: "dropWhile is_space s = [] \<Longrightarrow> py_split s = []"
  by (subst py_split.simps) (simp add: Let_def)

lemma py_split_eq_Nil_iff: "py_split s = [] \<longleftrightarrow> dropWhile is_space s = []"
  by (subst py_split.simps) (simp add: Let_def)

lemma py_split_dropWhile: "py_split (dropWhile is_space s) = py_split s"
  by (subst py_split.simps, subst (2) py_split.simps) (simp add: Let_def)

lemma py_split_append_space:
  "\<forall>c\<in>set t. is_space c \<Longrightarrow> py_split (u @ t) = py_split u"
proof (induction u rule: py_split.induct)
  case (1 u)
  let ?u' = "dropWhile is_space u"
  show ?case
  proof (cases "?u' = []")
    case True
    then have "dropWhile is_space (u @ t) = []" using "1.prems" by auto
    with True show ?thesis by (simp add: py_split_all_space)
  next
    case False
    then have u't: "dropWhile is_space (u @ t) = ?u' @ t"
      by (auto simp: dropWhile_append)
    let ?r = "dropWhile (\<lambda>c. \<not> is_space c) ?u'"
    have ih: "py_split (?r @ t) = py_split ?r"
      using "1.IH"[OF refl False] "1.prems" by simp
    have t_tw: "takeWhile (\<lambda>c. \<not> is_space c) t = []"
      using "1.prems" by (cases t) auto
    have tw: "takeWhile (\<lambda>c. \<not> is_space c) (?u' @ t) = takeWhile (\<lambda>c. \<not> is_space c) ?u'"
    proof (cases "\<forall>x\<in>set ?u'. \<not> is_space x")
      case True
      then have e: "takeWhile (\<lambda>c. \<not> is_space c) ?u' = ?u'" by simp
      have "takeWhile (\<lambda>c. \<not> is_space c) (?u' @ t) = ?u' @ takeWhile (\<lambda>c. \<not> is_space c) t"
        by (rule takeWhile_append2) (use True in blast)
      also have "\<dots> = ?u'" by (simp only: t_tw append_Nil2)
      finally show ?thesis by (simp only: e)
    next
      case False
      then obtain x where "x \<in> set ?u'" "\<not> \<not> is_space x" by blast
      then show ?thesis by (rule takeWhile_append1)
    qed
    have dw: "py_split (dropWhile (\<lambda>c. \<not> is_space c) (?u' @ t)) = py_split ?r"
    proof (cases "\<forall>x\<in>set ?u'. \<not> is_space x")
      case True
      then have "dropWhile (\<lambda>c. \<not> is_space c) (?u' @ t) = dropWhile (\<lambda>c. \<not> is_space c) t"
        by (simp add: dropWhile_append)
      also have "\<dots> = t" using "1.prems" by (cases t) auto
      finally have "py_split (dropWhile (\<lambda>c. \<not> is_space c) (?u' @ t)) = py_split t" by simp
      also have "\<dots> = []" using "1.prems" by (simp add: py_split_all_space)
      finally have e1: "py_split (dropWhile (\<lambda>c. \<not> is_space c) (?u' @ t)) = []" .
      have "?r = []" using True by simp
      then have "py_split ?r = []" by (simp only: py_split_Nil)
      with e1 show ?thesis by simp
    next
      case False
      then have "dropWhile (\<lambda>c. \<not> is_space c) (?u' @ t) = ?r @ t"
        by (auto simp: dropWhile_append)
      with ih show ?thesis by simp
    qed
    have "py_split (u @ t) = takeWhile (\<lambda>c. \<not> is_space c) ?u' # py_split ?r"
      using False u't tw dw by (subst py_split_unfold) simp_all
    also have "\<dots> = py_split u" using False by (simp add: py_split_unfold)
    finally show ?thesis .
  qed
qed

lemma strip_ws_decomp:
  "\<exists>t. dropWhile is_space s = strip_ws s @ t \<and> (\<forall>c\<in>set t. is_space c)"
proof -
  let ?s' = "dropWhile is_space s"
  have "rev ?s' = takeWhile is_space (rev ?s') @ dropWhile is_space (rev ?s')" by simp
  then have "?s' = rev (dropWhile is_space (rev ?s')) @ rev (takeWhile is_space (rev ?s'))"
    by (metis rev_append rev_rev_ident)
  moreover have "\<forall>c\<in>set (rev (takeWhile is_space (rev ?s'))). is_space c"
    by (auto dest: set_takeWhileD)
  ultimately show ?thesis unfolding strip_ws_def by blast
qed

lemma py_split_strip_ws: "py_split (strip_ws s) = py_split s"
proof -
  obtain t where t: "dropWhile is_space s = strip_ws s @ t" "\<forall>c\<in>set t. is_space c"
    using strip_ws_decomp by blast
  have "py_split s = py_split (strip_ws s @ t)" using t(1) py_split_dropWhile[of s] by simp
  then show ?thesis using t(2) by (simp add: py_split_append_space)
qed

lemma strip_ws_last: "strip_ws s \<noteq> [] \<Longrightarrow> \<not> is_space (last (strip_ws s))"
  unfolding strip_ws_def by (simp add: last_rev hd_dropWhile)

lemma strip_ws_hd: "strip_ws s \<noteq> [] \<Longrightarrow> \<not> is_space (hd (strip_ws s))"
proof -
  assume ne: "strip_ws s \<noteq> []"
  obtain t where t: "dropWhile is_space s = strip_ws s @ t"
    using strip_ws_decomp by blast
  with ne have "dropWhile is_space s \<noteq> []" by simp
  then have "\<not> is_space (hd (dropWhile is_space s))" by (rule hd_dropWhile)
  with t ne show ?thesis by simp
qed

lemma collapse_runs_append:
  "\<forall>c\<in>set w. \<not> is_space c \<Longrightarrow> collapse_runs (w @ r) = w @ collapse_runs r"
  by (induction w) simp_all

lemma join_split_collapse:
  "s = [] \<or> \<not> is_space (last s) \<Longrightarrow>
   py_join ''-'' (py_split s) = collapse_runs (dropWhile is_space s)"
proof (induction s rule: py_split.induct)
  case (1 s)
  let ?s' = "dropWhile is_space s"
  show ?case
  proof (cases "?s' = []")
    case True
    then have "py_split s = []" by (rule py_split_all_space)
    then show ?thesis unfolding True by simp
  next
    case False
    let ?w = "takeWhile (\<lambda>c. \<not> is_space c) ?s'"
    let ?r = "dropWhile (\<lambda>c. \<not> is_space c) ?s'"
    have split: "py_split s = ?w # py_split ?r" using False by (rule py_split_unfold)
    have "\<forall>c\<in>set ?w. \<not> is_space c" by (blast dest: set_takeWhileD)
    then have "collapse_runs (?w @ ?r) = ?w @ collapse_runs ?r" by (rule collapse_runs_append)
    then have col: "collapse_runs ?s' = ?w @ collapse_runs ?r"
      by (simp only: takeWhile_dropWhile_id)
    show ?thesis
    proof (cases "?r = []")
      case True
      with split col show ?thesis by (simp add: py_split_Nil)
    next
      case r: False
      have s_ne: "s \<noteq> []" using False by auto
      have "last (?w @ ?r) = last ?r" using r by (rule last_appendR)
      then have l1: "last ?s' = last ?r" by (simp only: takeWhile_dropWhile_id)
      have "last (takeWhile is_space s @ ?s') = last ?s'" using False by (rule last_appendR)
      then have l2: "last s = last ?s'" by (simp only: takeWhile_dropWhile_id)
      have lr: "\<not> is_space (last ?r)" using "1.prems" s_ne l1 l2 by simp
      have ih: "py_join ''-'' (py_split ?r) = collapse_runs (dropWhile is_space ?r)"
        using "1.IH"[OF refl False] lr by blast
      from r obtain c r' where cr: "?r = c # r'" "is_space c"
        by (cases ?r) (auto simp: dropWhile_eq_Cons_conv)
      have "last ?r \<in> set ?r" using r by (rule last_in_set)
      with lr have "\<exists>x\<in>set ?r. \<not> is_space x" by blast
      then have "dropWhile is_space ?r \<noteq> []" by (simp only: dropWhile_eq_Nil_conv) blast
      then have ne: "py_split ?r \<noteq> []" by (simp add: py_split_eq_Nil_iff)
      have "collapse_runs ?r = CHR ''-'' # collapse_runs (dropWhile is_space ?r)"
        using cr by simp
      with split col ih ne show ?thesis by (simp add: py_join_Cons)
    qed
  qed
qed

lemma join_split_refines:
  "py_join ''-'' (py_split s) = collapse_runs (strip_ws s)"
proof -
  let ?t = "strip_ws s"
  have "dropWhile is_space ?t = ?t"
    using strip_ws_hd[of s] by (cases ?t) auto
  moreover have "py_join ''-'' (py_split ?t) = collapse_runs (dropWhile is_space ?t)"
    using strip_ws_last[of s] by (intro join_split_collapse) auto
  ultimately show ?thesis by (simp add: py_split_strip_ws)
qed

lemma of_char_lt: "(of_char c :: nat) < 256"
proof -
  have "(of_char c :: nat) mod 256 < 256" by (rule mod_less_divisor) simp
  then show ?thesis by (simp only: of_char_mod_256)
qed

lemma is_space_lower [simp]: "is_space (lower_char c) = is_space c"
  using of_char_lt[of c] by (auto simp: is_space_def lower_char_def Let_def)

lemma is_space_blank [simp]: "is_space CHR '' ''"
  by (simp add: is_space_def)

lemma lower_char_blank_iff [simp]: "lower_char c = CHR '' '' \<longleftrightarrow> c = CHR '' ''"
proof
  assume a: "lower_char c = CHR '' ''"
  show "c = CHR '' ''"
  proof (rule ccontr)
    assume "c \<noteq> CHR '' ''"
    with a have "lower_char c \<noteq> c" by simp
    then have "(65::nat) \<le> of_char c \<and> (of_char (lower_char c) :: nat) = of_char c + 32"
      using of_char_lt[of c] by (auto simp: lower_char_def Let_def split: if_splits)
    with a have "(65::nat) \<le> of_char c" "(32::nat) = of_char c + 32" by auto
    then show False by arith
  qed
next
  assume "c = CHR '' ''" then show "lower_char c = CHR '' ''" by (simp add: lower_char_def)
qed

lemma lower_char_idem [simp]: "lower_char (lower_char c) = lower_char c"
  using of_char_lt[of c] by (auto simp: lower_char_def Let_def)

lemma py_lower_idem [simp]: "py_lower (py_lower s) = py_lower s"
  by (simp add: py_lower_def)

lemma name_char_lower_not_hyphen: "name_char c \<Longrightarrow> lower_char c \<noteq> CHR ''-''"
proof
  assume n: "name_char c" and a: "lower_char c = CHR ''-''"
  have "(of_char (lower_char c) :: nat) = 45" using a by simp
  moreover have "(of_char (lower_char c) :: nat) = of_char c \<or> (of_char (lower_char c) :: nat) = of_char c + 32"
    using of_char_lt[of c] by (auto simp: lower_char_def Let_def)
  ultimately have "(of_char c :: nat) = 45 \<or> (of_char c :: nat) = 13" by auto
  with n show False by (auto simp: name_char_def Let_def)
qed

lemma name_char_not_space: "name_char c \<Longrightarrow> \<not> is_space c"
  by (auto simp: name_char_def is_space_def Let_def)

lemma single_spaced_hd: "single_spaced s \<Longrightarrow> s \<noteq> [] \<Longrightarrow> \<not> is_space (hd s)"
  by (induction s rule: single_spaced.induct) auto

lemma single_spaced_last: "single_spaced s \<Longrightarrow> s \<noteq> [] \<Longrightarrow> \<not> is_space (last s)"
  by (induction s rule: single_spaced.induct) (auto split: if_splits)

lemma dropWhile_hd_id: "s = [] \<or> \<not> P (hd s) \<Longrightarrow> dropWhile P s = s"
  by (cases s) auto

lemma single_spaced_strip: "single_spaced s \<Longrightarrow> strip_ws s = s"
proof (cases "s = []")
  case True then show ?thesis by (simp add: strip_ws_def)
next
  case False
  assume ss: "single_spaced s"
  have 1: "dropWhile is_space s = s" using ss False by (intro dropWhile_hd_id) (simp add: single_spaced_hd)
  have "hd (rev s) = last s" using False by (simp add: hd_rev)
  then have 2: "dropWhile is_space (rev s) = rev s"
    using ss False by (intro dropWhile_hd_id) (simp add: single_spaced_last)
  show ?thesis by (simp add: strip_ws_def 1 2)
qed

lemma single_spaced_collapse: "single_spaced s \<Longrightarrow> collapse_runs s = spaces_to_hyphens s"
proof (induction s rule: single_spaced.induct)
  case 1
  then show ?case by (simp add: spaces_to_hyphens_def)
next
  case (2 c)
  then have "c \<noteq> CHR '' ''" by auto
  with 2 show ?case by (simp add: spaces_to_hyphens_def)
next
  case (3 c d cs)
  from "3.prems" have c: "\<not> is_space c" "c \<noteq> CHR '' ''" by auto
  show ?case
  proof (cases "d = CHR '' ''")
    case True
    with "3.prems" have cs: "cs \<noteq> []" "single_spaced cs" by auto
    then have "dropWhile is_space cs = cs" by (intro dropWhile_hd_id) (simp add: single_spaced_hd)
    moreover have "collapse_runs cs = spaces_to_hyphens cs" using "3.IH"(1)[OF True] cs by simp
    ultimately show ?thesis using c True by (simp add: spaces_to_hyphens_def)
  next
    case False
    with "3.prems" have "single_spaced (d # cs)" by simp
    then have "collapse_runs (d # cs) = spaces_to_hyphens (d # cs)" using "3.IH"(2)[OF False] by simp
    then show ?thesis using c by (simp add: spaces_to_hyphens_def)
  qed
qed

lemma single_spaced_lower: "single_spaced (py_lower s) = single_spaced s"
  by (induction s rule: single_spaced.induct) (simp_all add: py_lower_def)

lemma hyphens_spaces_inverse:
  "CHR ''-'' \<notin> set s \<Longrightarrow> hyphens_to_spaces (spaces_to_hyphens s) = s"
  unfolding hyphens_to_spaces_def spaces_to_hyphens_def
  by (induction s) auto

lemma valid_name_no_hyphen: "valid_state_name s \<Longrightarrow> CHR ''-'' \<notin> set (py_lower s)"
proof
  assume v: "valid_state_name s" and "CHR ''-'' \<in> set (py_lower s)"
  then obtain c where c: "c \<in> set s" "lower_char c = CHR ''-''" by (auto simp: py_lower_def)
  with v have "name_char c \<or> c = CHR '' ''" by (simp add: valid_state_name_def list_all_iff)
  with c(2) show False using name_char_lower_not_hyphen[of c] by (auto simp: lower_char_def)
qed

lemma roundtrip_text:
  "valid_state_name s \<Longrightarrow> format_state_name (py_join ''-'' (py_split (py_lower s))) = py_lower s"
proof -
  assume v: "valid_state_name s"
  then have "single_spaced s" by (simp add: valid_state_name_def list_all_iff)
  then have "py_join ''-'' (py_split (py_lower s)) = spaces_to_hyphens (py_lower s)"
    by (simp add: join_split_refines single_spaced_strip single_spaced_collapse single_spaced_lower)
  then show ?thesis using valid_name_no_hyphen[OF v]
    by (simp add: format_state_name_map hyphens_spaces_inverse)
qed

section \<open>StateField: representation\<close>

text \<open>
  C6, as amended. For every State record whose name has no white space other than
  single blanks between other characters, \<open>to_representation\<close> returns the name
  lowercased with each blank replaced by a hyphen. The function is total: it returns
  a string for every record.
\<close>

theorem to_representation_single_spaced:
  "single_spaced (name obj) \<Longrightarrow> to_representation obj = spaces_to_hyphens (py_lower (name obj))"
  by (simp add: to_representation_def join_split_refines single_spaced_strip
      single_spaced_collapse single_spaced_lower)

theorem to_representation_single_spaced_witness:
  "single_spaced ''Under Review'' \<and>
   to_representation \<lparr>pk = 1, name = ''Under Review''\<rparr> = ''under-review''"
proof -
  have h: "single_spaced (name \<lparr>pk = 1, name = ''Under Review''\<rparr>)" by code_simp
  have "spaces_to_hyphens (py_lower (name \<lparr>pk = 1, name = ''Under Review''\<rparr>)) = ''under-review''"
    by code_simp
  with to_representation_single_spaced [OF h] h show ?thesis by simp
qed

text \<open>
  C6 as stated fails for a name with two blanks in a row: replacing each blank gives
  two hyphens, the code gives one.
\<close>

theorem to_representation_double_space_counterexample:
  "to_representation \<lparr>pk = 1, name = ''Under  Review''\<rparr> = ''under-review'' \<and>
   spaces_to_hyphens (py_lower (name \<lparr>pk = 1, name = ''Under  Review''\<rparr>)) = ''under--review'' \<and>
   to_representation \<lparr>pk = 1, name = ''Under  Review''\<rparr>
     \<noteq> spaces_to_hyphens (py_lower (name \<lparr>pk = 1, name = ''Under  Review''\<rparr>))"
  by code_simp

text \<open>
  C10. For every State record, \<open>to_representation\<close> is the lowercased name with
  leading and trailing white space dropped and every remaining run of white space
  replaced by one hyphen; so two different names can have the same slug, as the two
  names shown do.
\<close>

theorem to_representation_collapses:
  "to_representation obj = collapse_runs (strip_ws (py_lower (name obj))) \<and>
   to_representation \<lparr>pk = 1, name = ''Under  Review''\<rparr>
     = to_representation \<lparr>pk = 2, name = '' under review ''\<rparr>"
proof
  show "to_representation obj = collapse_runs (strip_ws (py_lower (name obj)))"
    by (simp add: to_representation_def join_split_refines)
  show "to_representation \<lparr>pk = 1, name = ''Under  Review''\<rparr>
     = to_representation \<lparr>pk = 2, name = '' under review ''\<rparr>"
    by code_simp
qed

section \<open>StateField: round trip\<close>

text \<open>
  C1, as amended. For every State record of the table whose name consists of ASCII
  letters, digits, underscores and single blanks between them, and whose name no
  other record of the table equals up to case, \<open>to_internal_value\<close> of the slug
  that \<open>to_representation\<close> gives returns that record.
\<close>

theorem round_trip:
  assumes "valid_state_name (name obj)"
    and "filter (\<lambda>x. iexact (name x) (name obj)) queryset = [obj]"
  shows "to_internal_value queryset (PyStr (to_representation obj)) = Inr obj"
proof -
  have "format_state_name (to_representation obj) = py_lower (name obj)"
    using assms(1) by (simp add: to_representation_def roundtrip_text)
  moreover have "filter (\<lambda>x. iexact (name x) (py_lower (name obj))) queryset = [obj]"
    using assms(2) by (simp add: iexact_def)
  ultimately show ?thesis
    by (simp add: to_internal_value_def get_name_iexact_def)
qed

theorem round_trip_witness:
  "to_internal_value
     [\<lparr>pk = 1, name = ''New''\<rparr>, \<lparr>pk = 2, name = ''Under Review''\<rparr>]
     (PyStr (to_representation \<lparr>pk = 2, name = ''Under Review''\<rparr>))
   = Inr \<lparr>pk = 2, name = ''Under Review''\<rparr>"
proof (rule round_trip)
  show "valid_state_name (name \<lparr>pk = 2, name = ''Under Review''\<rparr>)" by code_simp
  show "filter (\<lambda>x. iexact (name x) (name \<lparr>pk = 2, name = ''Under Review''\<rparr>))
          [\<lparr>pk = 1, name = ''New''\<rparr>, \<lparr>pk = 2, name = ''Under Review''\<rparr>]
        = [\<lparr>pk = 2, name = ''Under Review''\<rparr>]" by code_simp
qed

text \<open>
  C1 as stated fails in a table where two names differ only in case: the lookup finds
  both rows and raises \<^verbatim>\<open>MultipleObjectsReturned\<close>, which no clause catches. It
  also fails for a name that begins with a blank: the slug loses the blank and the
  lookup finds nothing.
\<close>

theorem round_trip_counterexample:
  "valid_state_name ''New'' \<and> valid_state_name ''NEW'' \<and>
   to_internal_value
     [\<lparr>pk = 1, name = ''New''\<rparr>, \<lparr>pk = 2, name = ''NEW''\<rparr>]
     (PyStr (to_representation \<lparr>pk = 1, name = ''New''\<rparr>))
   = Inl MultipleObjectsReturned \<and>
   to_internal_value
     [\<lparr>pk = 1, name = '' New''\<rparr>]
     (PyStr (to_representation \<lparr>pk = 1, name = '' New''\<rparr>))
   = Inl (ValidationError ''invalid_choice''
           [(''name'', PyStr ''new''), (''choices'', PyStr '' New'')])"
  by code_simp

section \<open>StateField: errors\<close>

lemma to_internal_value_str:
  "to_internal_value queryset (PyStr s) =
     (case get_name_iexact queryset (hyphens_to_spaces s) of
        Inl e \<Rightarrow> Inl (handle queryset (PyStr (hyphens_to_spaces s)) e)
      | Inr obj \<Rightarrow> Inr obj)"
  by (simp add: to_internal_value_def format_state_name_map)

lemma get_name_iexact_cases:
  "get_name_iexact queryset d = Inl DoesNotExist \<or>
   get_name_iexact queryset d = Inl MultipleObjectsReturned \<or>
   (\<exists>obj. get_name_iexact queryset d = Inr obj)"
  by (simp add: get_name_iexact_def split: list.splits)

lemma get_name_iexact_none:
  "\<forall>x\<in>set queryset. \<not> iexact (name x) d \<Longrightarrow> get_name_iexact queryset d = Inl DoesNotExist"
proof -
  assume "\<forall>x\<in>set queryset. \<not> iexact (name x) d"
  then have "filter (\<lambda>x. iexact (name x) d) queryset = []" by (simp add: filter_empty_conv)
  then show ?thesis by (simp add: get_name_iexact_def)
qed

lemma choice_entries_nth:
  "i < length queryset \<Longrightarrow> choice_entries queryset ! i = hyphens_to_spaces (name (queryset ! i))"
  by (simp add: choice_entries_def format_state_name_map)

text \<open>
  C2, as amended. When \<open>to_internal_value\<close> is given a string whose form with
  hyphens replaced by spaces equals no State name up to case, it fails with
  \<^verbatim>\<open>invalid_choice\<close>; the choices of the error are joined with a comma and a
  blank, one entry for each State record in the order of the table, and each entry is
  the name of the record with its hyphens replaced by spaces.
\<close>

theorem invalid_choice_payload:
  assumes "\<forall>x\<in>set queryset. \<not> iexact (name x) (hyphens_to_spaces s)"
  shows "to_internal_value queryset (PyStr s) =
           Inl (ValidationError ''invalid_choice''
                 [(''name'', PyStr (hyphens_to_spaces s)),
                  (''choices'', PyStr (py_join '', '' (choice_entries queryset)))]) \<and>
         length (choice_entries queryset) = length queryset \<and>
         (\<forall>i<length queryset. choice_entries queryset ! i = hyphens_to_spaces (name (queryset ! i)))"
proof (intro conjI allI impI)
  show "to_internal_value queryset (PyStr s) =
           Inl (ValidationError ''invalid_choice''
                 [(''name'', PyStr (hyphens_to_spaces s)),
                  (''choices'', PyStr (py_join '', '' (choice_entries queryset)))])"
    using get_name_iexact_none[OF assms] by (simp add: to_internal_value_str fail_def)
  show "length (choice_entries queryset) = length queryset" by (simp add: choice_entries_def)
  fix i assume "i < length queryset"
  then show "choice_entries queryset ! i = hyphens_to_spaces (name (queryset ! i))"
    by (rule choice_entries_nth)
qed

theorem invalid_choice_payload_witness:
  "to_internal_value
     [\<lparr>pk = 1, name = ''New''\<rparr>, \<lparr>pk = 2, name = ''Under Review''\<rparr>] (PyStr ''does-not-exist'')
   = Inl (ValidationError ''invalid_choice''
           [(''name'', PyStr ''does not exist''), (''choices'', PyStr ''New, Under Review'')])"
proof -
  have h: "\<forall>x\<in>set [\<lparr>pk = 1, name = ''New''\<rparr>, \<lparr>pk = 2, name = ''Under Review''\<rparr>].
             \<not> iexact (name x) (hyphens_to_spaces ''does-not-exist'')" by code_simp
  have "hyphens_to_spaces ''does-not-exist'' = ''does not exist''" by code_simp
  moreover have "py_join '', '' (choice_entries [\<lparr>pk = 1, name = ''New''\<rparr>, \<lparr>pk = 2, name = ''Under Review''\<rparr>])
    = ''New, Under Review''" by code_simp
  ultimately show ?thesis using invalid_choice_payload [OF h] by simp
qed

text \<open>
  C2 as stated fails: the entry for \<^verbatim>\<open>Under Review\<close> is the name itself, not the
  slug \<^verbatim>\<open>under-review\<close>.
\<close>

theorem choices_not_slugs_counterexample:
  "to_internal_value [\<lparr>pk = 1, name = ''Under Review''\<rparr>] (PyStr ''does-not-exist'')
   = Inl (ValidationError ''invalid_choice''
           [(''name'', PyStr ''does not exist''), (''choices'', PyStr ''Under Review'')]) \<and>
   to_representation \<lparr>pk = 1, name = ''Under Review''\<rparr> = ''under-review'' \<and>
   choice_entries [\<lparr>pk = 1, name = ''Under Review''\<rparr>]
     \<noteq> map to_representation [\<lparr>pk = 1, name = ''Under Review''\<rparr>]"
  by code_simp

text \<open>
  C5, as amended. When \<open>to_internal_value\<close> fails with \<^verbatim>\<open>invalid_choice\<close>, the
  input was a string and the \<^verbatim>\<open>name\<close> of the error is that string with every
  hyphen replaced by a space: the reformatted text, not the text as supplied.
\<close>

theorem invalid_choice_name:
  assumes "to_internal_value queryset data = Inl (ValidationError ''invalid_choice'' kwargs)"
  shows "\<exists>s. data = PyStr s \<and> map_of kwargs ''name'' = Some (PyStr (hyphens_to_spaces s))"
proof (cases data)
  case (PyStr s)
  from get_name_iexact_cases[of queryset "hyphens_to_spaces s"] assms
  have "kwargs = [(''name'', PyStr (hyphens_to_spaces s)),
                  (''choices'', PyStr (py_join '', '' (choice_entries queryset)))]"
    unfolding PyStr to_internal_value_str by (auto simp: fail_def)
  then show ?thesis using PyStr by simp
qed (use assms in \<open>simp_all add: to_internal_value_def fail_def\<close>)

theorem invalid_choice_name_witness:
  "map_of [(''name'', PyStr ''in progress''), (''choices'', PyStr ''New'')] ''name''
     = Some (PyStr (hyphens_to_spaces ''in-progress''))"
proof -
  have h: "to_internal_value [\<lparr>pk = 1, name = ''New''\<rparr>] (PyStr ''in-progress'')
     = Inl (ValidationError ''invalid_choice''
             [(''name'', PyStr ''in progress''), (''choices'', PyStr ''New'')])" by code_simp
  from invalid_choice_name [OF h] show ?thesis by simp
qed

text \<open>
  C5 as stated fails for an input with a hyphen: \<^verbatim>\<open>in-progress\<close> is reported as
  \<^verbatim>\<open>in progress\<close>.
\<close>

theorem invalid_choice_name_counterexample:
  "to_internal_value [\<lparr>pk = 1, name = ''New''\<rparr>] (PyStr ''in-progress'')
     = Inl (ValidationError ''invalid_choice''
             [(''name'', PyStr ''in progress''), (''choices'', PyStr ''New'')]) \<and>
   PyStr ''in progress'' \<noteq> PyStr ''in-progress''"
  by code_simp

text \<open>
  What the code does with input that is not text: a bytes object reaches the
  \<^verbatim>\<open>incorrect_type\<close> clause, every other value leaves with \<^verbatim>\<open>AttributeError\<close>.
\<close>

lemma non_text_input:
  "(\<forall>s. data \<noteq> PyStr s) \<Longrightarrow> (\<forall>b. data \<noteq> PyBytes b) \<Longrightarrow>
   to_internal_value queryset data = Inl AttributeError"
  by (cases data) (simp_all add: to_internal_value_def)

lemma bytes_input:
  "to_internal_value queryset (PyBytes b)
     = Inl (ValidationError ''incorrect_type'' [(''data_type'', PyStr ''bytes'')])"
  by (simp add: to_internal_value_def fail_def)

text \<open>
  C3, evaluated at the input 123. The claim asks for the \<^verbatim>\<open>incorrect_type\<close>
  error; the code raises \<^verbatim>\<open>AttributeError\<close> from \<^verbatim>\<open>format_state_name\<close>, which
  the clause for \<^verbatim>\<open>TypeError\<close> and \<^verbatim>\<open>ValueError\<close> does not catch.
\<close>

theorem integer_input_escapes:
  "to_internal_value queryset (PyInt 123) = Inl AttributeError \<and>
   to_internal_value queryset (PyInt 123)
     \<noteq> Inl (ValidationError ''incorrect_type'' [(''data_type'', PyStr ''int'')])"
  by (simp add: to_internal_value_def)

section \<open>Patch serializers: tags and headers\<close>

lemma find_snoc:
  "List.find P (xs @ [x]) =
     (case List.find P xs of None \<Rightarrow> (if P x then Some x else None) | Some y \<Rightarrow> Some y)"
  by (induction xs) simp_all

lemma tags_dict_ok:
  assumes "\<forall>x\<in>set xs. attrs instance (attr_name x) \<noteq> None"
  shows "\<exists>d. tags_dict instance xs acc = Inr d \<and>
             (distinct (map fst acc) \<longrightarrow> distinct (map fst d)) \<and>
             fst ` set d = fst ` set acc \<union> tag_name ` set xs \<and>
             (\<forall>n. map_of d n =
                    (case List.find (\<lambda>x. tag_name x = n) (rev xs) of
                       None \<Rightarrow> map_of acc n
                     | Some x \<Rightarrow> attrs instance (attr_name x)))"
  using assms
proof (induction xs arbitrary: acc)
  case Nil
  then show ?case by simp
next
  case (Cons x xs)
  from Cons.prems obtain v where v: "attrs instance (attr_name x) = Some v" by auto
  let ?acc = "AList.update (tag_name x) v acc"
  from Cons.prems have "\<forall>y\<in>set xs. attrs instance (attr_name y) \<noteq> None" by simp
  from Cons.IH[OF this, of ?acc] obtain d where d:
    "tags_dict instance xs ?acc = Inr d"
    "distinct (map fst ?acc) \<longrightarrow> distinct (map fst d)"
    "fst ` set d = fst ` set ?acc \<union> tag_name ` set xs"
    "\<forall>n. map_of d n =
        (case List.find (\<lambda>x. tag_name x = n) (rev xs) of
           None \<Rightarrow> map_of ?acc n
         | Some x \<Rightarrow> attrs instance (attr_name x))"
    by blast
  have 1: "tags_dict instance (x # xs) acc = Inr d"
    using v d(1) by (simp add: getattr_def)
  have 2: "distinct (map fst acc) \<longrightarrow> distinct (map fst d)"
    using d(2) by (simp add: distinct_update)
  have 3: "fst ` set d = fst ` set acc \<union> tag_name ` set (x # xs)"
    using d(3) by (auto simp: dom_update)
  have 4: "map_of d n =
        (case List.find (\<lambda>x. tag_name x = n) (rev (x # xs)) of
           None \<Rightarrow> map_of acc n
         | Some x \<Rightarrow> attrs instance (attr_name x))" for n
    using d(4) v by (auto simp: find_snoc update_conv' split: option.splits)
  from 1 2 3 4 show ?case by blast
qed

text \<open>
  C7. The \<^verbatim>\<open>tags\<close> of a patch are \<^verbatim>\<open>None\<close> when its project has no tags.
  Otherwise, the count attributes being present on the patch, they are a dict with
  exactly the names of the project's tags as keys, and a name is mapped to the value
  of the count attribute of the tag of that name (of the last one, should two tags
  share a name).
\<close>

theorem get_tags_spec:
  "(tags (project instance) = [] \<longrightarrow> get_tags instance = Inr None) \<and>
   (tags (project instance) \<noteq> [] \<and>
    (\<forall>x\<in>set (tags (project instance)). attrs instance (attr_name x) \<noteq> None) \<longrightarrow>
      (\<exists>d. get_tags instance = Inr (Some d) \<and>
           distinct (map fst d) \<and>
           fst ` set d = tag_name ` set (tags (project instance)) \<and>
           (\<forall>n. map_of d n =
                  (case List.find (\<lambda>x. tag_name x = n) (rev (tags (project instance))) of
                     None \<Rightarrow> None
                   | Some x \<Rightarrow> attrs instance (attr_name x)))))"
proof (intro conjI impI)
  assume "tags (project instance) = []"
  then show "get_tags instance = Inr None" by (simp add: get_tags_def)
next
  assume a: "tags (project instance) \<noteq> [] \<and>
    (\<forall>x\<in>set (tags (project instance)). attrs instance (attr_name x) \<noteq> None)"
  then have "\<forall>x\<in>set (tags (project instance)). attrs instance (attr_name x) \<noteq> None" by simp
  from tags_dict_ok[OF this, of "[]"] have
    "\<exists>d. tags_dict instance (tags (project instance)) [] = Inr d \<and>
         distinct (map fst d) \<and>
         fst ` set d = tag_name ` set (tags (project instance)) \<and>
         (\<forall>n. map_of d n =
            (case List.find (\<lambda>x. tag_name x = n) (rev (tags (project instance))) of
               None \<Rightarrow> None
             | Some x \<Rightarrow> attrs instance (attr_name x)))"
    by (simp cong: option.case_cong)
  then obtain d where d:
    "tags_dict instance (tags (project instance)) [] = Inr d"
    "distinct (map fst d)"
    "fst ` set d = tag_name ` set (tags (project instance))"
    "\<forall>n. map_of d n =
        (case List.find (\<lambda>x. tag_name x = n) (rev (tags (project instance))) of
           None \<Rightarrow> None
         | Some x \<Rightarrow> attrs instance (attr_name x))"
    by blast
  have "get_tags instance = Inr (Some d)" using a d(1) by (simp add: get_tags_def)
  with d(2,3,4) show "\<exists>d. get_tags instance = Inr (Some d) \<and>
           distinct (map fst d) \<and>
           fst ` set d = tag_name ` set (tags (project instance)) \<and>
           (\<forall>n. map_of d n =
                  (case List.find (\<lambda>x. tag_name x = n) (rev (tags (project instance))) of
                     None \<Rightarrow> None
                   | Some x \<Rightarrow> attrs instance (attr_name x)))" by blast
qed

theorem get_tags_spec_witness:
  "get_tags \<lparr>project = \<lparr>tags = []\<rparr>, attrs = Map.empty, headers = None\<rparr> = Inr None \<and>
   (\<exists>d. get_tags reviewed_patch = Inr (Some d) \<and> map_of d ''reviewed'' = Some 3 \<and>
        fst ` set d = {''reviewed''})"
proof
  show "get_tags \<lparr>project = \<lparr>tags = []\<rparr>, attrs = Map.empty, headers = None\<rparr> = Inr None"
    using get_tags_spec [of "\<lparr>project = \<lparr>tags = []\<rparr>, attrs = Map.empty, headers = None\<rparr>"]
    by simp
  have h: "tags (project reviewed_patch) \<noteq> [] \<and>
    (\<forall>x\<in>set (tags (project reviewed_patch)). attrs reviewed_patch (attr_name x) \<noteq> None)"
    by (simp add: reviewed_patch_def)
  with get_tags_spec [of reviewed_patch] obtain d where d:
    "get_tags reviewed_patch = Inr (Some d)"
    "fst ` set d = tag_name ` set (tags (project reviewed_patch))"
    "\<forall>n. map_of d n =
        (case List.find (\<lambda>x. tag_name x = n) (rev (tags (project reviewed_patch))) of
           None \<Rightarrow> None
         | Some x \<Rightarrow> attrs reviewed_patch (attr_name x))"
    by blast
  have k: "tag_name ` set (tags (project reviewed_patch)) = {''reviewed''}"
    by (simp add: reviewed_patch_def)
  have m: "(case List.find (\<lambda>x. tag_name x = ''reviewed'') (rev (tags (project reviewed_patch))) of
           None \<Rightarrow> None
         | Some x \<Rightarrow> attrs reviewed_patch (attr_name x)) = Some 3"
    by (simp add: reviewed_patch_def)
  from d(3) have "map_of d ''reviewed'' =
        (case List.find (\<lambda>x. tag_name x = ''reviewed'') (rev (tags (project reviewed_patch))) of
           None \<Rightarrow> None
         | Some x \<Rightarrow> attrs reviewed_patch (attr_name x))" by (rule spec)
  then have "map_of d ''reviewed'' = Some 3" by (simp only: m)
  with d(1) d(2) k
  show "\<exists>d. get_tags reviewed_patch = Inr (Some d) \<and> map_of d ''reviewed'' = Some 3 \<and>
        fst ` set d = {''reviewed''}"
    by (intro exI[of _ d]) (simp only: simp_thms)
qed

text \<open>
  C9. For a patch whose stored header text is absent or empty, \<open>get_headers\<close>
  returns \<^verbatim>\<open>None\<close>; the function is total, so nothing is raised.
\<close>

theorem get_headers_absent:
  "headers p = None \<or> headers p = Some [] \<Longrightarrow> get_headers parsestr p = None"
  by (auto simp: get_headers_def)

theorem get_headers_absent_witness:
  "get_headers (\<lambda>h. h) \<lparr>project = \<lparr>tags = []\<rparr>, attrs = Map.empty, headers = None\<rparr> = None \<and>
   get_headers (\<lambda>h. h) \<lparr>project = \<lparr>tags = []\<rparr>, attrs = Map.empty, headers = Some ''''\<rparr> = None"
  using get_headers_absent [of "\<lparr>project = \<lparr>tags = []\<rparr>, attrs = Map.empty, headers = None\<rparr>" "\<lambda>h. h"]
    get_headers_absent [of "\<lparr>project = \<lparr>tags = []\<rparr>, attrs = Map.empty, headers = Some ''''\<rparr>" "\<lambda>h. h"]
  by simp

section \<open>Patch serializers: fields\<close>

lemma keys_serialize: "keys (serialize field_names field_value instance) = field_names"
  by (simp add: keys_def serialize_def comp_def)

text \<open>
  C8. The representation of a patch by the list serializer has none of the keys
  \<^verbatim>\<open>headers\<close>, \<^verbatim>\<open>content\<close> and \<^verbatim>\<open>diff\<close>; the representation by the detail
  serializer has all three.
\<close>

theorem list_and_detail_keys:
  "''headers'' \<notin> set (keys (serialize PatchListSerializer_fields field_value instance)) \<and>
   ''content'' \<notin> set (keys (serialize PatchListSerializer_fields field_value instance)) \<and>
   ''diff'' \<notin> set (keys (serialize PatchListSerializer_fields field_value instance)) \<and>
   ''headers'' \<in> set (keys (serialize PatchDetailSerializer_fields field_value instance)) \<and>
   ''content'' \<in> set (keys (serialize PatchDetailSerializer_fields field_value instance)) \<and>
   ''diff'' \<in> set (keys (serialize PatchDetailSerializer_fields field_value instance))"
  by (simp add: keys_serialize PatchDetailSerializer_fields_def PatchListSerializer_fields_def)

lemma writable_PatchListSerializer:
  "writable_fields PatchListSerializer_declared PatchListSerializer_fields
     PatchListSerializer_read_only_fields
   = [''commit_ref'', ''pull_url'', ''state'', ''archived'', ''delegate'']"
  by code_simp

lemma fold_upd_other:
  "f \<notin> fst ` set kvs \<Longrightarrow> fold (\<lambda>(k, v) m. m(k \<mapsto> v)) kvs m f = m f"
  by (induction kvs arbitrary: m) auto

lemma update_frame:
  "f \<notin> set (writable_fields declared field_names read_only_fields) \<Longrightarrow>
   update declared field_names read_only_fields instance data f = instance f"
  unfolding update_def validated_data_def
  by (rule fold_upd_other) auto

text \<open>
  C4, as amended. The fields of the list serializer that an update can change are
  exactly \<^verbatim>\<open>state\<close>, \<^verbatim>\<open>archived\<close>, \<^verbatim>\<open>delegate\<close>, \<^verbatim>\<open>commit_ref\<close> and
  \<^verbatim>\<open>pull_url\<close>; every other field keeps its value in an update.
\<close>

theorem writable_set:
  "set (writable_fields PatchListSerializer_declared PatchListSerializer_fields
          PatchListSerializer_read_only_fields)
     = {''state'', ''archived'', ''delegate'', ''commit_ref'', ''pull_url''} \<and>
   (\<forall>f. f \<notin> {''state'', ''archived'', ''delegate'', ''commit_ref'', ''pull_url''} \<longrightarrow>
        update PatchListSerializer_declared PatchListSerializer_fields
          PatchListSerializer_read_only_fields instance data f = instance f)"
proof -
  have s: "set (writable_fields PatchListSerializer_declared PatchListSerializer_fields
          PatchListSerializer_read_only_fields)
     = {''state'', ''archived'', ''delegate'', ''commit_ref'', ''pull_url''}"
    unfolding writable_PatchListSerializer by auto
  show ?thesis
    using update_frame[of _ PatchListSerializer_declared PatchListSerializer_fields
          PatchListSerializer_read_only_fields "instance" data]
    unfolding s by simp
qed

theorem writable_set_witness:
  "update PatchListSerializer_declared PatchListSerializer_fields
     PatchListSerializer_read_only_fields
     [''name'' \<mapsto> ''old'', ''archived'' \<mapsto> ''False'']
     [(''name'', ''new''), (''archived'', ''True'')] ''name'' = Some ''old''"
  using writable_set [of "[''name'' \<mapsto> ''old'', ''archived'' \<mapsto> ''False'']"
      "[(''name'', ''new''), (''archived'', ''True'')]"]
  by simp

text \<open>
  C4 as stated fails: \<^verbatim>\<open>name\<close> is listed in \<^verbatim>\<open>read_only_fields\<close>, so it is not
  writable and an update leaves it as it was.
\<close>

theorem name_not_writable_counterexample:
  "''name'' \<in> set PatchListSerializer_read_only_fields \<and>
   ''name'' \<notin> set (writable_fields PatchListSerializer_declared PatchListSerializer_fields
                     PatchListSerializer_read_only_fields) \<and>
   update PatchListSerializer_declared PatchListSerializer_fields
     PatchListSerializer_read_only_fields
     [''name'' \<mapsto> ''old''] [(''name'', ''new'')] ''name'' = Some ''old''"
  by code_simp

end
